theory Spec2Isabelle
  imports Main
begin

section \<open>Python values, exceptions and text\<close>

text \<open>
  The notebook \<^verbatim>\<open>classification.ipynb\<close> runs on a Python 3 kernel. A Python \<^verbatim>\<open>str\<close> is
  modelled as a \<^typ>\<open>string\<close> and a \<^verbatim>\<open>bytes\<close> object as a list of 8-bit characters, so
  text is limited to code points below 256.
\<close>

type_synonym bytes = "char list"

definition sq :: char where
  "sq = CHR 0x27"

definition dq :: char where
  "dq = CHR 0x22"

definition backslash :: char where
  "backslash = CHR 0x5C"

text \<open>
  The exceptions the notebook's own code raises or provokes. \<open>NameError\<close> carries the
  unbound name; \<open>External\<close> is anything raised inside a library call (the class name is
  kept), such as \<^verbatim>\<open>FileNotFoundError\<close> from \<^verbatim>\<open>open\<close> or \<^verbatim>\<open>JSONDecodeError\<close> from
  \<^verbatim>\<open>json.loads\<close>.
\<close>

datatype exn =
    Exception string
  | ValueError string
  | NameError string
  | TypeError
  | IndexError
  | KeyError
  | External string

datatype pyfloat = Finite int int | Infinity bool | NaN

text \<open>
  The values \<^verbatim>\<open>json.loads\<close> can return and \<^verbatim>\<open>json.dumps\<close> can be given: a dictionary is
  an association list with \<^verbatim>\<open>str\<close> keys.
\<close>

datatype py =
    PNone
  | PBool bool
  | PInt int
  | PFloat pyfloat
  | PStr string
  | PList "py list"
  | PDict "(string \<times> py) list"

section \<open>base64.b64encode and the text of a bytes object\<close>

definition b64_alphabet :: string where
  "b64_alphabet = ''ABCDEFGHIJKLMNOPQRSTUVWXYZabcdefghijklmnopqrstuvwxyz0123456789+/''"

definition b64_char :: "nat \<Rightarrow> char" where
  "b64_char i = b64_alphabet ! i"

text \<open>
  \<^verbatim>\<open>base64.b64encode(s)\<close> with the standard alphabet: three bytes give four characters,
  a last group of one or two bytes is padded with \<^verbatim>\<open>=\<close>.
\<close>

fun b64encode :: "bytes \<Rightarrow> bytes" where
  "b64encode [] = []"
| "b64encode [a] =
     (let x = (of_char a :: nat) in
      [b64_char (x div 4), b64_char ((x mod 4) * 16), CHR ''='', CHR ''=''])"
| "b64encode [a, b] =
     (let x = (of_char a :: nat); y = (of_char b :: nat) in
      [b64_char (x div 4), b64_char ((x mod 4) * 16 + y div 16),
       b64_char ((y mod 16) * 4), CHR ''=''])"
| "b64encode (a # b # c # rest) =
     (let x = (of_char a :: nat); y = (of_char b :: nat); z = (of_char c :: nat) in
      [b64_char (x div 4), b64_char ((x mod 4) * 16 + y div 16),
       b64_char ((y mod 16) * 4 + z div 64), b64_char (z mod 64)] @ b64encode rest)"

definition hex_digit :: "nat \<Rightarrow> char" where
  "hex_digit d = ''0123456789abcdef'' ! d"

text \<open>
  \<^verbatim>\<open>repr\<close> of a bytes object, which is also its \<^verbatim>\<open>str\<close> and what
  \<^verbatim>\<open>"{0}".format(encoded)\<close> yields on Python 3: the quote is \<^verbatim>\<open>'\<close> unless the bytes
  hold a \<^verbatim>\<open>'\<close> and no \<^verbatim>\<open>"\<close>; the quote and the backslash are escaped, tab, newline and
  carriage return have their letters, and every other byte outside the printable ASCII
  range is written \<^verbatim>\<open>\xNN\<close>.
\<close>

definition repr_quote :: "bytes \<Rightarrow> char" where
  "repr_quote bs = (if sq \<in> set bs \<and> dq \<notin> set bs then dq else sq)"

definition repr_byte :: "char \<Rightarrow> char \<Rightarrow> string" where
  "repr_byte quote c =
     (if c = quote \<or> c = backslash then [backslash, c]
      else if c = CHR 0x09 then [backslash, CHR ''t'']
      else if c = CHR 0x0A then [backslash, CHR ''n'']
      else if c = CHR 0x0D then [backslash, CHR ''r'']
      else if (of_char c :: nat) < 32 \<or> 127 \<le> (of_char c :: nat)
        then [backslash, CHR ''x'', hex_digit ((of_char c :: nat) div 16),
              hex_digit ((of_char c :: nat) mod 16)]
      else [c])"

definition bytes_repr :: "bytes \<Rightarrow> string" where
  "bytes_repr bs =
     (let quote = repr_quote bs in
      CHR ''b'' # quote # concat (map (repr_byte quote) bs) @ [quote])"

section \<open>score\_image\_with\_http\<close>

text \<open>
  The headers dictionary: \<^verbatim>\<open>service_key\<close> is \<^verbatim>\<open>None\<close> for a local deployment, a
  \<^verbatim>\<open>str\<close> otherwise.
\<close>

definition request_headers :: "string option \<Rightarrow> (string \<times> string) list" where
  "request_headers service_key =
     (case service_key of
        None \<Rightarrow> [(''Content-Type'', ''application/json'')]
      | Some key \<Rightarrow>
          [(''Content-Type'', ''application/json''),
           (''Authorization'', ''Bearer '' @ key)])"

text \<open>
  The dictionary \<^verbatim>\<open>image_request\<close> and the list \<^verbatim>\<open>payload\<close>, which starts empty and
  has \<^verbatim>\<open>image_request\<close> appended.
\<close>

definition image_request :: "bytes \<Rightarrow> py \<Rightarrow> (string \<times> py) list" where
  "image_request image_buffer parameters =
     (let encoded = b64encode image_buffer in
      [(''image_in_base64'', PStr (bytes_repr encoded)), (''parameters'', parameters)])"

definition request_payload :: "bytes \<Rightarrow> py \<Rightarrow> py list" where
  "request_payload image_buffer parameters =
     [] @ [PDict (image_request image_buffer parameters)]"

text \<open>
  What \<^verbatim>\<open>requests.post(service_endpoint_url, data=body, headers=headers)\<close> is given.
\<close>

record http_request =
  url :: string
  data :: string
  headers :: "(string \<times> string) list"

text \<open>
  The library calls the function makes are collaborators of the model: reading the image
  file (\<^verbatim>\<open>open(image,'rb')\<close> and \<^verbatim>\<open>f.read()\<close>), \<^verbatim>\<open>json.dumps\<close>, \<^verbatim>\<open>requests.post\<close>
  followed by \<^verbatim>\<open>r.text\<close>, and \<^verbatim>\<open>json.loads\<close> on a \<^verbatim>\<open>str\<close>. Each returns its result or
  the exception it raises.
\<close>

record world =
  read_file :: "string \<Rightarrow> exn + bytes"
  json_dumps :: "py \<Rightarrow> exn + string"
  requests_post :: "http_request \<Rightarrow> exn + string"
  json_loads :: "string \<Rightarrow> exn + py"

text \<open>
  \<^verbatim>\<open>result[0]\<close>: the first item of a list, the first character of a \<^verbatim>\<open>str\<close> (as a
  \<^verbatim>\<open>str\<close> of length one), \<^verbatim>\<open>IndexError\<close> when either is empty, \<^verbatim>\<open>KeyError\<close> on a
  dictionary (its keys are \<^verbatim>\<open>str\<close>, never \<^verbatim>\<open>0\<close>), \<^verbatim>\<open>TypeError\<close> on \<^verbatim>\<open>None\<close>, a
  \<^verbatim>\<open>bool\<close> or a number.
\<close>

fun getitem0 :: "py \<Rightarrow> exn + py" where
  "getitem0 (PList []) = Inl IndexError"
| "getitem0 (PList (x # xs)) = Inr x"
| "getitem0 (PStr []) = Inl IndexError"
| "getitem0 (PStr (c # cs)) = Inr (PStr [c])"
| "getitem0 (PDict d) = Inl KeyError"
| "getitem0 PNone = Inl TypeError"
| "getitem0 (PBool b) = Inl TypeError"
| "getitem0 (PInt i) = Inl TypeError"
| "getitem0 (PFloat f) = Inl TypeError"

text \<open>\<^verbatim>\<open>json.loads(x)\<close> on a value: a \<^verbatim>\<open>TypeError\<close> unless \<^verbatim>\<open>x\<close> is a \<^verbatim>\<open>str\<close>.\<close>

definition loads_value :: "world \<Rightarrow> py \<Rightarrow> exn + py" where
  "loads_value w x = (case x of PStr s \<Rightarrow> json_loads w s | _ \<Rightarrow> Inl TypeError)"

text \<open>
  The \<^verbatim>\<open>try\<close> block and the \<^verbatim>\<open>return\<close>: the bare \<^verbatim>\<open>except\<close> turns every exception of
  the two \<^verbatim>\<open>json.loads\<close> calls and of \<^verbatim>\<open>result[0]\<close> into the \<^verbatim>\<open>ValueError\<close>.
\<close>

definition parse_response :: "world \<Rightarrow> string \<Rightarrow> exn + py" where
  "parse_response w text =
     (let failed = Inl (ValueError (''Incorrect output format. Result cant not be parsed: '' @ text)) in
      case json_loads w text of
        Inl e \<Rightarrow> failed
      | Inr result \<Rightarrow>
          (case getitem0 result of
             Inl e \<Rightarrow> failed
           | Inr first \<Rightarrow>
               (case loads_value w first of
                  Inl e \<Rightarrow> failed
                | Inr parsed \<Rightarrow> getitem0 result)))"

text \<open>
  The function returns its result, or the exception that ends it, together with the
  calls of \<^verbatim>\<open>requests.post\<close> it has made, in order.
\<close>

definition score_image_with_http ::
  "world \<Rightarrow> string \<Rightarrow> string \<Rightarrow> string option \<Rightarrow> py \<Rightarrow> (exn + py) \<times> http_request list" where
  "score_image_with_http w image_path service_endpoint_url service_key parameters =
     (let hdrs = request_headers service_key in
      case read_file w image_path of
        Inl e \<Rightarrow> (Inl e, [])
      | Inr image_buffer \<Rightarrow>
          (let payload = request_payload image_buffer parameters in
           case json_dumps w (PList payload) of
             Inl e \<Rightarrow> (Inl e, [])
           | Inr body \<Rightarrow>
               (let r = \<lparr>url = service_endpoint_url, data = body, headers = hdrs\<rparr> in
                case requests_post w r of
                  Inl e \<Rightarrow> (Inl e, [r])
                | Inr text \<Rightarrow> (parse_response w text, [r]))))"

section \<open>The classifier selection cell\<close>

text \<open>
  \<^verbatim>\<open>str.lower\<close> on code points below 256: the ASCII capitals and the Latin-1 capitals
  (all of \<^verbatim>\<open>0xC0\<close> to \<^verbatim>\<open>0xDE\<close> but the multiplication sign) move up by 32.
\<close>

definition lower_char :: "char \<Rightarrow> char" where
  "lower_char c =
     (let n = (of_char c :: nat) in
      if (65 \<le> n \<and> n \<le> 90) \<or> (192 \<le> n \<and> n \<le> 222 \<and> n \<noteq> 215)
      then char_of (n + 32) else c)"

definition str_lower :: "string \<Rightarrow> string" where
  "str_lower s = map lower_char s"

text \<open>
  The cell, as a function of \<^verbatim>\<open>classifier_name\<close> and of what the kernel's variable
  \<^verbatim>\<open>classifier\<close> is bound to when the cell starts. No other cell of the notebook assigns
  \<^verbatim>\<open>classifier\<close>, so it is unbound (\<open>None\<close>) or holds the model object an earlier run of
  this cell stored. \<open>train\<close> is \<^verbatim>\<open>dnn_model.train(...)\<close>; \<open>str_add\<close> is \<^verbatim>\<open>+\<close> between a
  \<^verbatim>\<open>str\<close> and a model object, which the object's class decides. The cell returns the new
  binding of \<^verbatim>\<open>classifier\<close> or the exception raised.
\<close>

definition classifier_cell ::
  "('m \<Rightarrow> exn + 'm) \<Rightarrow> (string \<Rightarrow> 'm \<Rightarrow> exn + string) \<Rightarrow> 'm \<Rightarrow> string \<Rightarrow> 'm option
     \<Rightarrow> exn + 'm option" where
  "classifier_cell train str_add dnn_model classifier_name classifier =
     (if str_lower classifier_name = ''dnn'' then
        (case train dnn_model of
           Inl e \<Rightarrow> Inl e
         | Inr trained \<Rightarrow> Inr (Some trained))
      else
        (case classifier of
           None \<Rightarrow> Inl (NameError ''classifier'')
         | Some obj \<Rightarrow>
             (case str_add ''Classifier unknown: '' obj of
                Inl e \<Rightarrow> Inl e
              | Inr message \<Rightarrow> Inl (Exception message))))"

section \<open>The deployment cell\<close>

text \<open>
  \<^verbatim>\<open>deploy_obj\<close>, as far as the cell fixes it (the associated model is left out).
\<close>

record deployment =
  deployment_name :: string
  aml_env :: string
  replicas :: nat

text \<open>
  The three \<^verbatim>\<open>AMLDeployment\<close> calls of the cell act on the cloud account, whose state
  has some type \<open>'c\<close>: a query, and two calls that change the account. Each may raise.
\<close>

record 'c aml_cli =
  is_existing_service :: "deployment \<Rightarrow> 'c \<Rightarrow> exn + bool"
  delete_if_service_exist :: "string \<Rightarrow> 'c \<Rightarrow> exn + 'c"
  deploy :: "deployment \<Rightarrow> 'c \<Rightarrow> exn + 'c"

datatype event =
    IsExistingService deployment
  | DeleteIfServiceExist string
  | Print string
  | Deploy deployment

text \<open>
  The cell returns the account's final state, or the exception that ends it, and the
  trace of its calls, each with the state of the account when the call starts.
\<close>

definition deployment_cell ::
  "'c aml_cli \<Rightarrow> string \<Rightarrow> 'c \<Rightarrow> (exn + 'c) \<times> (event \<times> 'c) list" where
  "deployment_cell cli name c0 =
     (let deploy_obj = \<lparr>deployment_name = name, aml_env = ''cluster'', replicas = 1\<rparr>;
          t0 = [(IsExistingService deploy_obj, c0)] in
      case is_existing_service cli deploy_obj c0 of
        Inl e \<Rightarrow> (Inl e, t0)
      | Inr existing \<Rightarrow>
          (case (if existing
                 then (delete_if_service_exist cli name c0, [(DeleteIfServiceExist name, c0)])
                 else (Inr c0, [])) of
             (Inl e, t1) \<Rightarrow> (Inl e, t0 @ t1)
           | (Inr c1, t1) \<Rightarrow>
               (let t2 = t0 @ t1 @ [(Print ''Deploying to Azure cluster...'', c1),
                                    (Deploy deploy_obj, c1)] in
                case deploy cli deploy_obj c1 of
                  Inl e \<Rightarrow> (Inl e, t2)
                | Inr c2 \<Rightarrow> (Inr c2, t2 @ [(Print ''Deployment DONE'', c2)]))))"

section \<open>Example collaborators\<close>

text \<open>
  A small world to run the model in: one image file of three bytes, a serialiser that
  knows only the payload of that image with empty parameters and fails on every other
  value, a service with one endpoint that answers as the
  scoring service does, one that answers with a list of numbers, one that answers with
  a JSON string and one that answers with a page of markup, and a decoder that knows the
  JSON texts involved.
\<close>

definition example_body :: string where
  "example_body =
     ''[{'' @ [dq] @ ''image_in_base64'' @ [dq] @ '': '' @ [dq] @ ''b'' @ [sq] @ ''TWFu'' @ [sq] @ [dq]
       @ '', '' @ [dq] @ ''parameters'' @ [dq] @ '': {}}]''"

definition example_response :: string where
  "example_response = ''['' @ [dq] @ ''[2, 7]'' @ [dq] @ '']''"

definition example_string_response :: string where
  "example_string_response = [dq] @ ''7x'' @ [dq]"

definition example_world :: world where
  "example_world =
     \<lparr>read_file = (\<lambda>path. if path = ''cup.jpg'' then Inr ''Man''
                           else Inl (External ''FileNotFoundError'')),
      json_dumps = (\<lambda>v. if v = PList (request_payload ''Man'' (PDict [])) then Inr example_body
                         else Inl (External ''TypeError'')),
      requests_post = (\<lambda>r. if url r = ''http://localhost/score'' then Inr example_response
                            else if url r = ''http://localhost/numbers'' then Inr ''[2, 7]''
                            else if url r = ''http://localhost/string'' then Inr example_string_response
                            else if url r = ''http://localhost/broken'' then Inr ''<html>503</html>''
                            else Inl (External ''ConnectionError'')),
      json_loads = (\<lambda>s. if s = example_response then Inr (PList [PStr ''[2, 7]''])
                         else if s = ''[2, 7]'' then Inr (PList [PInt 2, PInt 7])
                         else if s = example_string_response then Inr (PStr ''7x'')
                         else if s = ''7'' then Inr (PInt 7)
                         else Inl (External ''JSONDecodeError''))\<rparr>"

text \<open>
  A cloud account as the list of the names of its services, with calls that do what
  their names say.
\<close>

definition example_cli :: "string list aml_cli" where
  "example_cli =
     \<lparr>is_existing_service = (\<lambda>d c. Inr (deployment_name d \<in> set c)),
      delete_if_service_exist = (\<lambda>n c. Inr (removeAll n c)),
      deploy = (\<lambda>d c. Inr (deployment_name d # c))\<rparr>"

text \<open>A byte is plain when its \<^verbatim>\<open>repr\<close> is the byte itself.\<close>

definition plain :: "char \<Rightarrow> bool" where
  "plain c \<longleftrightarrow>
     32 \<le> (of_char c :: nat) \<and> (of_char c :: nat) < 127 \<and> c \<noteq> sq \<and> c \<noteq> dq \<and> c \<noteq> backslash"

section \<open>Properties of the encoding\<close>

lemma b64encode_test_vectors:
  "b64encode ''f'' = ''Zg==''" "b64encode ''fo'' = ''Zm8=''" "b64encode ''foo'' = ''Zm9v''"
  "b64encode ''foobar'' = ''Zm9vYmFy''" "b64encode ''Man'' = ''TWFu''"
  by (simp_all add: b64_char_def b64_alphabet_def)

lemma bytes_repr_examples:
  "bytes_repr ''TWFu'' = ''b'' @ [sq] @ ''TWFu'' @ [sq]"
  "bytes_repr [CHR 0x00, sq, CHR ''a'', CHR 0xFF, CHR 0x0A]
     = ''b'' @ [dq, backslash] @ ''x00'' @ [sq] @ ''a'' @ [backslash] @ ''xff'' @ [backslash] @ ''n'' @ [dq]"
  by (simp_all add: bytes_repr_def Let_def repr_quote_def repr_byte_def hex_digit_def sq_def
      dq_def backslash_def)

lemma b64_alphabet_length: "length b64_alphabet = 64"
  by (simp add: b64_alphabet_def)

lemma b64_char_in_alphabet: "i < 64 \<Longrightarrow> b64_char i \<in> set b64_alphabet"
  unfolding b64_char_def by (rule nth_mem) (simp add: b64_alphabet_length)

lemma of_char_bound: "(of_char c :: nat) < 256"
proof -
  have "(of_char c :: nat) mod 256 < 256" by simp
  then show ?thesis by (simp only: of_char_mod_256)
qed

text \<open>The six-bit groups cut from three bytes are below 64.\<close>

lemma sextets:
  fixes x y z :: nat
  assumes "x < 256" "y < 256" "z < 256"
  shows "x div 4 < 64" "(x mod 4) * 16 < 64" "(x mod 4) * 16 + y div 16 < 64"
    "(y mod 16) * 4 < 64" "(y mod 16) * 4 + z div 64 < 64" "z mod 64 < 64"
proof -
  have x3: "x mod 4 \<le> 3" and y15: "y mod 16 \<le> 15"
    by (simp_all add: Suc_leI flip: less_Suc_eq_le)
  show "x div 4 < 64" using assms by simp
  show "z mod 64 < 64" by simp
  show "(x mod 4) * 16 < 64" using x3 by simp
  have "y div 16 < 16" using assms by simp
  then show "(x mod 4) * 16 + y div 16 < 64" using x3 by simp
  show "(y mod 16) * 4 < 64" using y15 by simp
  have "z div 64 < 4" using assms by simp
  then show "(y mod 16) * 4 + z div 64 < 64" using y15 by simp
qed

lemma b64_sextet_chars:
  fixes a b c :: char
  shows "b64_char (of_char a div 4) \<in> set b64_alphabet"
    "b64_char ((of_char a mod 4) * 16) \<in> set b64_alphabet"
    "b64_char ((of_char a mod 4) * 16 + of_char b div 16) \<in> set b64_alphabet"
    "b64_char ((of_char b mod 16) * 4) \<in> set b64_alphabet"
    "b64_char ((of_char b mod 16) * 4 + of_char c div 64) \<in> set b64_alphabet"
    "b64_char (of_char c mod 64) \<in> set b64_alphabet"
  by (rule b64_char_in_alphabet, rule sextets, (rule of_char_bound)+)+

lemma b64encode_chars: "set (b64encode bs) \<subseteq> insert (CHR ''='') (set b64_alphabet)"
proof (induction bs rule: b64encode.induct)
  case 1
  show ?case by simp
next
  case (2 a)
  show ?case by (simp add: Let_def b64_sextet_chars)
next
  case (3 a b)
  show ?case by (simp add: Let_def b64_sextet_chars)
next
  case (4 a b c rest)
  then show ?case by (simp add: Let_def b64_sextet_chars)
qed

lemma b64_alphabet_plain: "list_all plain (CHR ''='' # b64_alphabet)"
  by (simp add: b64_alphabet_def plain_def sq_def dq_def backslash_def)

lemma repr_byte_plain: "plain c \<Longrightarrow> repr_byte sq c = [c]"
  by (auto simp add: plain_def repr_byte_def)

lemma concat_repr_plain: "list_all plain bs \<Longrightarrow> concat (map (repr_byte sq) bs) = bs"
  by (induction bs) (simp_all add: repr_byte_plain)

lemma repr_quote_plain: "list_all plain bs \<Longrightarrow> repr_quote bs = sq"
  by (auto simp add: repr_quote_def list_all_iff plain_def)

lemma b64encode_plain: "list_all plain (b64encode bs)"
proof -
  have "\<forall>c \<in> set (CHR ''='' # b64_alphabet). plain c"
    using b64_alphabet_plain by (simp only: list_all_iff)
  then show ?thesis
    using b64encode_chars [of bs] by (auto simp add: list_all_iff)
qed

lemma bytes_repr_b64encode:
  "bytes_repr (b64encode bs) = CHR ''b'' # sq # b64encode bs @ [sq]"
  by (simp add: bytes_repr_def Let_def repr_quote_plain concat_repr_plain b64encode_plain)

section \<open>Properties of the request\<close>

text \<open>
  Every request in the log was posted to the endpoint given, with the serialised payload
  of the image that was read and the headers of the key given.
\<close>

lemma posted_request:
  assumes "r \<in> set (snd (score_image_with_http w image_path service_endpoint_url service_key parameters))"
  shows "\<exists>image_buffer. read_file w image_path = Inr image_buffer
     \<and> json_dumps w (PList (request_payload image_buffer parameters)) = Inr (data r)
     \<and> url r = service_endpoint_url \<and> headers r = request_headers service_key"
  using assms
  by (auto simp add: score_image_with_http_def Let_def split: sum.splits)

lemma example_score_log:
  "snd (score_image_with_http example_world ''cup.jpg'' ''http://localhost/score'' None (PDict []))
   = [\<lparr>url = ''http://localhost/score'', data = example_body, headers = request_headers None\<rparr>]"
  by (simp add: score_image_with_http_def example_world_def)

lemma bytes_repr_not_bare: "bytes_repr (b64encode bs) \<noteq> b64encode bs"
proof -
  have "length (bytes_repr (b64encode bs)) = length (b64encode bs) + 3"
    by (simp add: bytes_repr_b64encode)
  then show ?thesis by auto
qed

text \<open>
  C9. In the request built by \<^verbatim>\<open>score_image_with_http\<close>, the value under
  \<^verbatim>\<open>"image_in_base64"\<close> is the text of the bytes object that \<^verbatim>\<open>base64.b64encode\<close>
  returns: the letter \<^verbatim>\<open>b\<close>, a single quote, the base64 characters as they are, and a
  closing single quote. It is never the bare base64 text. This holds of the dictionary
  \<^verbatim>\<open>image_request\<close>, and of every request the function posts: its body is the
  serialisation of the one-item payload whose item holds, under \<^verbatim>\<open>"image_in_base64"\<close>,
  that text for the bytes of the image file.
\<close>

theorem image_in_base64_is_bytes_repr:
  "map_of (image_request image_buffer parameters) ''image_in_base64''
     = Some (PStr (bytes_repr (b64encode image_buffer)))
   \<and> bytes_repr (b64encode image_buffer) = ''b'' @ [sq] @ b64encode image_buffer @ [sq]
   \<and> bytes_repr (b64encode image_buffer) \<noteq> b64encode image_buffer
   \<and> (\<forall>r \<in> set (snd (score_image_with_http w image_path service_endpoint_url service_key parameters)).
        \<exists>buf d. read_file w image_path = Inr buf
          \<and> request_payload buf parameters = [PDict d]
          \<and> json_dumps w (PList [PDict d]) = Inr (data r)
          \<and> map_of d ''image_in_base64'' = Some (PStr (''b'' @ [sq] @ b64encode buf @ [sq]))
          \<and> map_of d ''image_in_base64'' \<noteq> Some (PStr (b64encode buf)))"
proof -
  have tied: "\<exists>buf d. read_file w image_path = Inr buf
          \<and> request_payload buf parameters = [PDict d]
          \<and> json_dumps w (PList [PDict d]) = Inr (data r)
          \<and> map_of d ''image_in_base64'' = Some (PStr (''b'' @ [sq] @ b64encode buf @ [sq]))
          \<and> map_of d ''image_in_base64'' \<noteq> Some (PStr (b64encode buf))"
    if "r \<in> set (snd (score_image_with_http w image_path service_endpoint_url service_key parameters))"
    for r
  proof -
    from posted_request [OF that] obtain buf where
      buf: "read_file w image_path = Inr buf"
        "json_dumps w (PList (request_payload buf parameters)) = Inr (data r)"
      by blast
    have payload: "request_payload buf parameters = [PDict (image_request buf parameters)]"
      by (simp add: request_payload_def)
    have field: "map_of (image_request buf parameters) ''image_in_base64''
        = Some (PStr (''b'' @ [sq] @ b64encode buf @ [sq]))"
      by (simp add: image_request_def Let_def bytes_repr_b64encode)
    have bare: "Some (PStr (''b'' @ [sq] @ b64encode buf @ [sq])) \<noteq> Some (PStr (b64encode buf))"
      using bytes_repr_not_bare [of buf] by (simp add: bytes_repr_b64encode)
    show ?thesis
      using buf payload field bare by (metis (no_types))
  qed
  show ?thesis
    using tied bytes_repr_not_bare [of image_buffer]
    by (simp add: image_request_def Let_def bytes_repr_b64encode)
qed

theorem image_in_base64_is_bytes_repr_witness:
  "\<lparr>url = ''http://localhost/score'', data = example_body, headers = request_headers None\<rparr>
     \<in> set (snd (score_image_with_http example_world ''cup.jpg'' ''http://localhost/score'' None (PDict [])))
   \<and> read_file example_world ''cup.jpg'' = Inr ''Man''
   \<and> b64encode ''Man'' = ''TWFu''
   \<and> (\<exists>buf d. read_file example_world ''cup.jpg'' = Inr buf
          \<and> request_payload buf (PDict []) = [PDict d]
          \<and> json_dumps example_world (PList [PDict d]) = Inr example_body
          \<and> map_of d ''image_in_base64'' = Some (PStr (''b'' @ [sq] @ b64encode buf @ [sq]))
          \<and> map_of d ''image_in_base64'' \<noteq> Some (PStr (b64encode buf)))"
proof -
  let ?r = "\<lparr>url = ''http://localhost/score'', data = example_body, headers = request_headers None\<rparr>"
  let ?log = "snd (score_image_with_http example_world ''cup.jpg'' ''http://localhost/score'' None (PDict []))"
  have h: "?r \<in> set ?log"
    by (simp add: example_score_log)
  have all: "\<forall>r \<in> set ?log.
        \<exists>buf d. read_file example_world ''cup.jpg'' = Inr buf
          \<and> request_payload buf (PDict []) = [PDict d]
          \<and> json_dumps example_world (PList [PDict d]) = Inr (data r)
          \<and> map_of d ''image_in_base64'' = Some (PStr (''b'' @ [sq] @ b64encode buf @ [sq]))
          \<and> map_of d ''image_in_base64'' \<noteq> Some (PStr (b64encode buf))"
    using image_in_base64_is_bytes_repr
      [of "''Man''" "PDict []" example_world "''cup.jpg''" "''http://localhost/score''" None]
    by blast
  have read: "read_file example_world ''cup.jpg'' = Inr ''Man''"
    by (simp add: example_world_def)
  have enc: "b64encode ''Man'' = ''TWFu''"
    by (simp add: b64_char_def b64_alphabet_def)
  show ?thesis
    using bspec [OF all h] h read enc by simp
qed

text \<open>
  C10. The headers built by \<^verbatim>\<open>score_image_with_http\<close> always hold
  \<^verbatim>\<open>Content-Type: application/json\<close>; they hold an \<^verbatim>\<open>Authorization\<close> entry exactly when
  \<^verbatim>\<open>service_key\<close> is not \<^verbatim>\<open>None\<close>, and its value is then \<^verbatim>\<open>Bearer\<close>, a space and the
  key. Every request the function posts carries these headers.
\<close>

theorem request_headers_content_type_authorization:
  "map_of (request_headers service_key) ''Content-Type'' = Some ''application/json''
   \<and> map_of (request_headers service_key) ''Authorization''
       = map_option (\<lambda>key. ''Bearer '' @ key) service_key
   \<and> ((''Authorization'' \<in> fst ` set (request_headers service_key)) = (service_key \<noteq> None))
   \<and> list_all (\<lambda>r. headers r = request_headers service_key)
        (snd (score_image_with_http w image_path service_endpoint_url service_key parameters))"
  by (cases service_key)
     (simp_all add: request_headers_def score_image_with_http_def Let_def split: sum.splits)

text \<open>
  C3. The body of every request that \<^verbatim>\<open>score_image_with_http\<close> posts to the service
  endpoint is the JSON serialisation of a list of objects, each with exactly the two keys
  \<^verbatim>\<open>"image_in_base64"\<close> and \<^verbatim>\<open>"parameters"\<close>.
\<close>

theorem posted_body_is_list_of_two_key_objects:
  assumes "r \<in> set (snd (score_image_with_http w image_path service_endpoint_url service_key parameters))"
  shows "\<exists>image_buffer. read_file w image_path = Inr image_buffer
     \<and> json_dumps w (PList (request_payload image_buffer parameters)) = Inr (data r)
     \<and> url r = service_endpoint_url
     \<and> (\<forall>item \<in> set (request_payload image_buffer parameters).
          \<exists>d. item = PDict d \<and> distinct (map fst d)
            \<and> set (map fst d) = {''image_in_base64'', ''parameters''})"
  using posted_request [OF assms]
  by (auto simp add: request_payload_def image_request_def Let_def)

theorem posted_body_is_list_of_two_key_objects_witness:
  "\<lparr>url = ''http://localhost/score'', data = example_body, headers = request_headers None\<rparr>
     \<in> set (snd (score_image_with_http example_world ''cup.jpg'' ''http://localhost/score'' None (PDict [])))
   \<and> (\<exists>image_buffer. read_file example_world ''cup.jpg'' = Inr image_buffer
     \<and> json_dumps example_world (PList (request_payload image_buffer (PDict []))) = Inr example_body
     \<and> (\<forall>item \<in> set (request_payload image_buffer (PDict [])).
          \<exists>d. item = PDict d \<and> distinct (map fst d)
            \<and> set (map fst d) = {''image_in_base64'', ''parameters''}))"
proof -
  have h: "\<lparr>url = ''http://localhost/score'', data = example_body, headers = request_headers None\<rparr>
     \<in> set (snd (score_image_with_http example_world ''cup.jpg'' ''http://localhost/score'' None (PDict [])))"
    by (simp add: example_score_log)
  show ?thesis
    using posted_body_is_list_of_two_key_objects [OF h] h by simp
qed

text \<open>
  C8. The payload list whose serialisation \<^verbatim>\<open>score_image_with_http\<close> sends has length
  exactly one, whatever the arguments: one image is scored per request.
\<close>

theorem posted_payload_has_length_one:
  assumes "r \<in> set (snd (score_image_with_http w image_path service_endpoint_url service_key parameters))"
  shows "\<exists>image_buffer. read_file w image_path = Inr image_buffer
     \<and> json_dumps w (PList (request_payload image_buffer parameters)) = Inr (data r)
     \<and> length (request_payload image_buffer parameters) = 1"
  using posted_request [OF assms] by (auto simp add: request_payload_def)

theorem posted_payload_has_length_one_witness:
  "\<lparr>url = ''http://localhost/score'', data = example_body, headers = request_headers None\<rparr>
     \<in> set (snd (score_image_with_http example_world ''cup.jpg'' ''http://localhost/score'' None (PDict [])))
   \<and> (\<exists>image_buffer. read_file example_world ''cup.jpg'' = Inr image_buffer
     \<and> json_dumps example_world (PList (request_payload image_buffer (PDict []))) = Inr example_body
     \<and> length (request_payload image_buffer (PDict [])) = 1)"
proof -
  have h: "\<lparr>url = ''http://localhost/score'', data = example_body, headers = request_headers None\<rparr>
     \<in> set (snd (score_image_with_http example_world ''cup.jpg'' ''http://localhost/score'' None (PDict [])))"
    by (simp add: example_score_log)
  show ?thesis
    using posted_payload_has_length_one [OF h] h by simp
qed

section \<open>Properties of the response handling\<close>

text \<open>
  Once the image is read, the payload serialised and a response received, the function
  has posted one request and what it returns is decided by the \<^verbatim>\<open>try\<close> block.
\<close>

lemma score_after_response:
  assumes "read_file w image_path = Inr image_buffer"
    and "json_dumps w (PList (request_payload image_buffer parameters)) = Inr body"
    and "requests_post w \<lparr>url = service_endpoint_url, data = body,
           headers = request_headers service_key\<rparr> = Inr text"
  shows "score_image_with_http w image_path service_endpoint_url service_key parameters
    = (parse_response w text,
       [\<lparr>url = service_endpoint_url, data = body, headers = request_headers service_key\<rparr>])"
  using assms by (simp add: score_image_with_http_def)

lemma parse_response_malformed:
  assumes "(\<exists>e. json_loads w text = Inl e)
     \<or> (\<exists>result. json_loads w text = Inr result
          \<and> \<not> (\<exists>s rest parsed. result = PList (PStr s # rest) \<and> json_loads w s = Inr parsed)
          \<and> \<not> (\<exists>c cs parsed. result = PStr (c # cs) \<and> json_loads w [c] = Inr parsed))"
  shows "parse_response w text
    = Inl (ValueError (''Incorrect output format. Result cant not be parsed: '' @ text))"
  using assms
proof (elim disjE exE conjE)
  fix e assume "json_loads w text = Inl e"
  then show ?thesis by (simp add: parse_response_def)
next
  fix result
  assume dec: "json_loads w text = Inr result"
    and nolist: "\<not> (\<exists>s rest parsed. result = PList (PStr s # rest) \<and> json_loads w s = Inr parsed)"
    and nostr: "\<not> (\<exists>c cs parsed. result = PStr (c # cs) \<and> json_loads w [c] = Inr parsed)"
  show ?thesis
  proof (cases "getitem0 result")
    case (Inl e)
    with dec show ?thesis by (simp add: parse_response_def)
  next
    case (Inr first)
    have "\<exists>e. loads_value w first = Inl e"
    proof (cases result)
      case (PList xs)
      with Inr obtain rest where xs: "xs = first # rest" by (cases xs) auto
      show ?thesis
      proof (cases first)
        case (PStr s)
        with nolist PList xs have "\<forall>parsed. json_loads w s \<noteq> Inr parsed" by simp
        then show ?thesis using PStr by (cases "json_loads w s") (auto simp add: loads_value_def)
      qed (simp_all add: loads_value_def)
    next
      case (PStr s)
      with Inr obtain c cs where s: "s = c # cs" and first: "first = PStr [c]" by (cases s) auto
      with nostr PStr have "\<forall>parsed. json_loads w [c] \<noteq> Inr parsed" by simp
      then show ?thesis using first by (cases "json_loads w [c]") (auto simp add: loads_value_def)
    qed (use Inr in simp_all)
    then show ?thesis using dec Inr by (auto simp add: parse_response_def)
  qed
qed

text \<open>
  A response that decodes to a string passes the \<^verbatim>\<open>try\<close> block when the first character
  of the string decodes on its own, and that character is returned.
\<close>

lemma parse_response_string_first_character:
  assumes "json_loads w text = Inr (PStr (c # cs))" and "json_loads w [c] = Inr parsed"
  shows "parse_response w text = Inr (PStr [c])"
  using assms by (simp add: parse_response_def loads_value_def)

text \<open>
  C2, as stated, asks for a \<^verbatim>\<open>ValueError\<close> whenever the response text does not decode
  to a list whose first element is a string that decodes as JSON. The endpoint of the
  example world that answers with the JSON string \<^verbatim>\<open>"7x"\<close> sends no list, yet the
  function raises nothing: \<^verbatim>\<open>result[0]\<close> is the character \<^verbatim>\<open>7\<close>, which decodes, and it
  is returned.
\<close>

theorem string_response_is_not_rejected:
  "requests_post example_world \<lparr>url = ''http://localhost/string'', data = example_body,
       headers = request_headers None\<rparr> = Inr example_string_response
   \<and> json_loads example_world example_string_response = Inr (PStr ''7x'')
   \<and> fst (score_image_with_http example_world ''cup.jpg'' ''http://localhost/string'' None (PDict []))
       = Inr (PStr ''7'')
   \<and> fst (score_image_with_http example_world ''cup.jpg'' ''http://localhost/string'' None (PDict []))
       \<noteq> Inl (ValueError (''Incorrect output format. Result cant not be parsed: ''
             @ example_string_response))"
  by (simp add: score_image_with_http_def parse_response_def loads_value_def example_world_def
      example_response_def example_string_response_def dq_def)

text \<open>
  C2, amended. \<^verbatim>\<open>score_image_with_http\<close> raises a \<^verbatim>\<open>ValueError\<close> whose message is
  \<^verbatim>\<open>Incorrect output format. Result cant not be parsed: \<close> followed by the response text
  whenever the response text does not decode as JSON, or decodes to a value that is
  neither a list whose first item is a string that decodes as JSON nor a string whose
  first character decodes as JSON: an empty list or string, a list whose first item is
  not such a string, a string whose first character does not decode, an object, a
  number, a boolean or \<^verbatim>\<open>null\<close>.
\<close>

theorem malformed_response_raises_ValueError:
  assumes "read_file w image_path = Inr image_buffer"
    and "json_dumps w (PList (request_payload image_buffer parameters)) = Inr body"
    and "requests_post w \<lparr>url = service_endpoint_url, data = body,
           headers = request_headers service_key\<rparr> = Inr text"
    and "(\<exists>e. json_loads w text = Inl e)
     \<or> (\<exists>result. json_loads w text = Inr result
          \<and> \<not> (\<exists>s rest parsed. result = PList (PStr s # rest) \<and> json_loads w s = Inr parsed)
          \<and> \<not> (\<exists>c cs parsed. result = PStr (c # cs) \<and> json_loads w [c] = Inr parsed))"
  shows "fst (score_image_with_http w image_path service_endpoint_url service_key parameters)
    = Inl (ValueError (''Incorrect output format. Result cant not be parsed: '' @ text))"
  using assms(4) by (simp add: score_after_response [OF assms(1-3)] parse_response_malformed)

text \<open>
  Two runs in the example world: the endpoint that answers with markup, which does not
  decode, and the endpoint that answers with a list of numbers, whose first element is
  not a string.
\<close>

theorem malformed_response_raises_ValueError_witness:
  "requests_post example_world \<lparr>url = ''http://localhost/broken'', data = example_body,
       headers = request_headers None\<rparr> = Inr ''<html>503</html>''
   \<and> (\<exists>e. json_loads example_world ''<html>503</html>'' = Inl e)
   \<and> fst (score_image_with_http example_world ''cup.jpg'' ''http://localhost/broken'' None (PDict []))
       = Inl (ValueError ''Incorrect output format. Result cant not be parsed: <html>503</html>'')
   \<and> requests_post example_world \<lparr>url = ''http://localhost/numbers'', data = example_body,
       headers = request_headers None\<rparr> = Inr ''[2, 7]''
   \<and> json_loads example_world ''[2, 7]'' = Inr (PList [PInt 2, PInt 7])
   \<and> fst (score_image_with_http example_world ''cup.jpg'' ''http://localhost/numbers'' None (PDict []))
       = Inl (ValueError ''Incorrect output format. Result cant not be parsed: [2, 7]'')"
proof -
  have h1: "read_file example_world ''cup.jpg'' = Inr ''Man''"
    by (simp add: example_world_def)
  have h2: "json_dumps example_world (PList (request_payload ''Man'' (PDict []))) = Inr example_body"
    by (simp add: example_world_def)
  have h3: "requests_post example_world \<lparr>url = ''http://localhost/broken'', data = example_body,
       headers = request_headers None\<rparr> = Inr ''<html>503</html>''"
    by (simp add: example_world_def)
  have h4: "\<exists>e. json_loads example_world ''<html>503</html>'' = Inl e"
    by (simp add: example_world_def example_response_def example_string_response_def dq_def)
  have k3: "requests_post example_world \<lparr>url = ''http://localhost/numbers'', data = example_body,
       headers = request_headers None\<rparr> = Inr ''[2, 7]''"
    by (simp add: example_world_def)
  have k4: "json_loads example_world ''[2, 7]'' = Inr (PList [PInt 2, PInt 7])"
    by (simp add: example_world_def example_response_def example_string_response_def dq_def)
  have k5: "(\<exists>e. json_loads example_world ''[2, 7]'' = Inl e)
     \<or> (\<exists>result. json_loads example_world ''[2, 7]'' = Inr result
          \<and> \<not> (\<exists>s rest parsed. result = PList (PStr s # rest) \<and> json_loads example_world s = Inr parsed)
          \<and> \<not> (\<exists>c cs parsed. result = PStr (c # cs) \<and> json_loads example_world [c] = Inr parsed))"
    using k4 by simp
  show ?thesis
    using malformed_response_raises_ValueError [OF h1 h2 h3 disjI1 [OF h4]]
      malformed_response_raises_ValueError [OF h1 h2 k3 k5] h3 h4 k3 k4
    by simp
qed

text \<open>
  C4. Whenever the response text decodes as a JSON list whose first element is a string
  that itself decodes as JSON, \<^verbatim>\<open>score_image_with_http\<close> returns that first element, the
  serialised score string exactly as it was received.
\<close>

theorem first_element_returned_unchanged:
  assumes "read_file w image_path = Inr image_buffer"
    and "json_dumps w (PList (request_payload image_buffer parameters)) = Inr body"
    and "requests_post w \<lparr>url = service_endpoint_url, data = body,
           headers = request_headers service_key\<rparr> = Inr text"
    and "json_loads w text = Inr (PList (PStr s # rest))"
    and "json_loads w s = Inr parsed"
  shows "fst (score_image_with_http w image_path service_endpoint_url service_key parameters)
    = Inr (PStr s)"
  using assms(4,5)
  by (simp add: score_after_response [OF assms(1-3)] parse_response_def loads_value_def)

theorem first_element_returned_unchanged_witness:
  "json_loads example_world example_response = Inr (PList [PStr ''[2, 7]''])
   \<and> json_loads example_world ''[2, 7]'' = Inr (PList [PInt 2, PInt 7])
   \<and> fst (score_image_with_http example_world ''cup.jpg'' ''http://localhost/score''
         (Some ''k3y'') (PDict [])) = Inr (PStr ''[2, 7]'')"
proof -
  have h1: "read_file example_world ''cup.jpg'' = Inr ''Man''"
    by (simp add: example_world_def)
  have h2: "json_dumps example_world (PList (request_payload ''Man'' (PDict []))) = Inr example_body"
    by (simp add: example_world_def)
  have h3: "requests_post example_world \<lparr>url = ''http://localhost/score'', data = example_body,
       headers = request_headers (Some ''k3y'')\<rparr> = Inr example_response"
    by (simp add: example_world_def)
  have h4: "json_loads example_world example_response = Inr (PList (PStr ''[2, 7]'' # []))"
    by (simp add: example_world_def)
  have h5: "json_loads example_world ''[2, 7]'' = Inr (PList [PInt 2, PInt 7])"
    by (simp add: example_world_def example_response_def example_string_response_def dq_def)
  show ?thesis
    using first_element_returned_unchanged [OF h1 h2 h3 h4 h5] h4 h5 by simp
qed

section \<open>The number of requests\<close>

text \<open>
  C7, as stated, asks for exactly one POST request in every invocation. An invocation
  whose image file cannot be opened ends with the error of \<^verbatim>\<open>open\<close> before
  \<^verbatim>\<open>requests.post\<close> is reached: it issues no request.
\<close>

theorem missing_image_issues_no_post:
  "score_image_with_http example_world ''missing.jpg'' ''http://localhost/score'' None (PDict [])
     = (Inl (External ''FileNotFoundError''), [])
   \<and> length (snd (score_image_with_http example_world ''missing.jpg'' ''http://localhost/score''
         None (PDict []))) \<noteq> 1"
  by (simp add: score_image_with_http_def example_world_def)

text \<open>
  C7, amended. Every invocation of \<^verbatim>\<open>score_image_with_http\<close> issues at most one POST
  request: exactly one when the image file is read and the payload is serialised, and
  none when reading the image or \<^verbatim>\<open>json.dumps\<close> raises, in which case the invocation
  ends with that error. The function never retries: when \<^verbatim>\<open>requests.post\<close> raises, the
  invocation ends with that error after its one request, and when a response arrives,
  what the \<^verbatim>\<open>try\<close> block makes of it is the outcome, after that one request.
\<close>

theorem at_most_one_post:
  "length (snd (score_image_with_http w image_path service_endpoint_url service_key parameters)) \<le> 1
   \<and> ((length (snd (score_image_with_http w image_path service_endpoint_url service_key parameters)) = 1)
       = (\<exists>image_buffer body. read_file w image_path = Inr image_buffer
            \<and> json_dumps w (PList (request_payload image_buffer parameters)) = Inr body))
   \<and> (snd (score_image_with_http w image_path service_endpoint_url service_key parameters) = []
        \<longrightarrow> (\<exists>e. fst (score_image_with_http w image_path service_endpoint_url service_key parameters) = Inl e))
   \<and> (\<forall>image_buffer body e.
         read_file w image_path = Inr image_buffer
         \<and> json_dumps w (PList (request_payload image_buffer parameters)) = Inr body
         \<and> requests_post w \<lparr>url = service_endpoint_url, data = body,
              headers = request_headers service_key\<rparr> = Inl e
        \<longrightarrow> score_image_with_http w image_path service_endpoint_url service_key parameters
             = (Inl e, [\<lparr>url = service_endpoint_url, data = body,
                  headers = request_headers service_key\<rparr>]))
   \<and> (\<forall>e. read_file w image_path = Inl e
        \<longrightarrow> score_image_with_http w image_path service_endpoint_url service_key parameters
             = (Inl e, []))
   \<and> (\<forall>image_buffer e.
         read_file w image_path = Inr image_buffer
         \<and> json_dumps w (PList (request_payload image_buffer parameters)) = Inl e
        \<longrightarrow> score_image_with_http w image_path service_endpoint_url service_key parameters
             = (Inl e, []))
   \<and> (\<forall>image_buffer body text.
         read_file w image_path = Inr image_buffer
         \<and> json_dumps w (PList (request_payload image_buffer parameters)) = Inr body
         \<and> requests_post w \<lparr>url = service_endpoint_url, data = body,
              headers = request_headers service_key\<rparr> = Inr text
        \<longrightarrow> score_image_with_http w image_path service_endpoint_url service_key parameters
             = (parse_response w text, [\<lparr>url = service_endpoint_url, data = body,
                  headers = request_headers service_key\<rparr>]))"
proof -
  let ?run = "score_image_with_http w image_path service_endpoint_url service_key parameters"
  have count: "length (snd ?run) \<le> 1"
    by (simp add: score_image_with_http_def Let_def split: sum.splits)
  have one: "(length (snd ?run) = 1)
       = (\<exists>image_buffer body. read_file w image_path = Inr image_buffer
            \<and> json_dumps w (PList (request_payload image_buffer parameters)) = Inr body)"
    by (auto simp add: score_image_with_http_def Let_def split: sum.splits)
  have none: "snd ?run = [] \<longrightarrow> (\<exists>e. fst ?run = Inl e)"
    by (auto simp add: score_image_with_http_def Let_def split: sum.splits)
  have post: "\<forall>image_buffer body e.
         read_file w image_path = Inr image_buffer
         \<and> json_dumps w (PList (request_payload image_buffer parameters)) = Inr body
         \<and> requests_post w \<lparr>url = service_endpoint_url, data = body,
              headers = request_headers service_key\<rparr> = Inl e
        \<longrightarrow> ?run = (Inl e, [\<lparr>url = service_endpoint_url, data = body,
                  headers = request_headers service_key\<rparr>])"
    by (simp add: score_image_with_http_def)
  have read: "\<forall>e. read_file w image_path = Inl e \<longrightarrow> ?run = (Inl e, [])"
    by (simp add: score_image_with_http_def)
  have dumps: "\<forall>image_buffer e.
         read_file w image_path = Inr image_buffer
         \<and> json_dumps w (PList (request_payload image_buffer parameters)) = Inl e
        \<longrightarrow> ?run = (Inl e, [])"
    by (simp add: score_image_with_http_def)
  have response: "\<forall>image_buffer body text.
         read_file w image_path = Inr image_buffer
         \<and> json_dumps w (PList (request_payload image_buffer parameters)) = Inr body
         \<and> requests_post w \<lparr>url = service_endpoint_url, data = body,
              headers = request_headers service_key\<rparr> = Inr text
        \<longrightarrow> ?run = (parse_response w text, [\<lparr>url = service_endpoint_url, data = body,
                  headers = request_headers service_key\<rparr>])"
    by (simp add: score_image_with_http_def)
  show ?thesis
    using count one none post read dumps response by (intro conjI)
qed

theorem at_most_one_post_witness:
  "length (snd (score_image_with_http example_world ''cup.jpg'' ''http://localhost/broken'' None (PDict []))) = 1
   \<and> snd (score_image_with_http example_world ''missing.jpg'' ''http://localhost/score'' None (PDict [])) = []
   \<and> (\<exists>e. fst (score_image_with_http example_world ''missing.jpg'' ''http://localhost/score'' None (PDict [])) = Inl e)
   \<and> requests_post example_world \<lparr>url = ''http://example.invalid/'', data = example_body,
        headers = request_headers None\<rparr> = Inl (External ''ConnectionError'')
   \<and> score_image_with_http example_world ''cup.jpg'' ''http://example.invalid/'' None (PDict [])
       = (Inl (External ''ConnectionError''),
          [\<lparr>url = ''http://example.invalid/'', data = example_body, headers = request_headers None\<rparr>])
   \<and> read_file example_world ''missing.jpg'' = Inl (External ''FileNotFoundError'')
   \<and> score_image_with_http example_world ''missing.jpg'' ''http://localhost/score'' None (PDict [])
       = (Inl (External ''FileNotFoundError''), [])
   \<and> json_dumps example_world (PList (request_payload ''Man'' (PList [PNone])))
       = Inl (External ''TypeError'')
   \<and> score_image_with_http example_world ''cup.jpg'' ''http://localhost/score'' None (PList [PNone])
       = (Inl (External ''TypeError''), [])
   \<and> requests_post example_world \<lparr>url = ''http://localhost/broken'', data = example_body,
        headers = request_headers None\<rparr> = Inr ''<html>503</html>''
   \<and> score_image_with_http example_world ''cup.jpg'' ''http://localhost/broken'' None (PDict [])
       = (parse_response example_world ''<html>503</html>'',
          [\<lparr>url = ''http://localhost/broken'', data = example_body, headers = request_headers None\<rparr>])"
proof -
  have h1: "read_file example_world ''cup.jpg'' = Inr ''Man''"
    by (simp add: example_world_def)
  have h2: "json_dumps example_world (PList (request_payload ''Man'' (PDict []))) = Inr example_body"
    by (simp add: example_world_def)
  have h3: "snd (score_image_with_http example_world ''missing.jpg'' ''http://localhost/score'' None (PDict [])) = []"
    by (simp add: score_image_with_http_def example_world_def)
  have h4: "requests_post example_world \<lparr>url = ''http://example.invalid/'', data = example_body,
        headers = request_headers None\<rparr> = Inl (External ''ConnectionError'')"
    by (simp add: example_world_def)
  have h5: "read_file example_world ''missing.jpg'' = Inl (External ''FileNotFoundError'')"
    by (simp add: example_world_def)
  have h6: "json_dumps example_world (PList (request_payload ''Man'' (PList [PNone])))
       = Inl (External ''TypeError'')"
    by (simp add: example_world_def request_payload_def image_request_def Let_def)
  have h7: "requests_post example_world \<lparr>url = ''http://localhost/broken'', data = example_body,
        headers = request_headers None\<rparr> = Inr ''<html>503</html>''"
    by (simp add: example_world_def)
  have a: "length (snd (score_image_with_http example_world ''cup.jpg'' ''http://localhost/broken'' None (PDict []))) = 1"
    using at_most_one_post [of example_world "''cup.jpg''" "''http://localhost/broken''" None "PDict []"]
      h1 h2 by blast
  have b: "\<exists>e. fst (score_image_with_http example_world ''missing.jpg'' ''http://localhost/score'' None (PDict [])) = Inl e"
    using at_most_one_post [of example_world "''missing.jpg''" "''http://localhost/score''" None "PDict []"]
      h3 by blast
  have c: "score_image_with_http example_world ''cup.jpg'' ''http://example.invalid/'' None (PDict [])
       = (Inl (External ''ConnectionError''),
          [\<lparr>url = ''http://example.invalid/'', data = example_body, headers = request_headers None\<rparr>])"
    using at_most_one_post [of example_world "''cup.jpg''" "''http://example.invalid/''" None "PDict []"]
      h1 h2 h4 by blast
  have d: "score_image_with_http example_world ''missing.jpg'' ''http://localhost/score'' None (PDict [])
       = (Inl (External ''FileNotFoundError''), [])"
    using at_most_one_post [of example_world "''missing.jpg''" "''http://localhost/score''" None "PDict []"]
      h5 by blast
  have e: "score_image_with_http example_world ''cup.jpg'' ''http://localhost/score'' None (PList [PNone])
       = (Inl (External ''TypeError''), [])"
    using at_most_one_post [of example_world "''cup.jpg''" "''http://localhost/score''" None "PList [PNone]"]
      h1 h6 by blast
  have f: "score_image_with_http example_world ''cup.jpg'' ''http://localhost/broken'' None (PDict [])
       = (parse_response example_world ''<html>503</html>'',
          [\<lparr>url = ''http://localhost/broken'', data = example_body, headers = request_headers None\<rparr>])"
    using at_most_one_post [of example_world "''cup.jpg''" "''http://localhost/broken''" None "PDict []"]
      h1 h2 h7 by blast
  show ?thesis using a b c d e f h3 h4 h5 h6 h7 by simp
qed

section \<open>Properties of the classifier selection cell\<close>

lemma str_lower_examples:
  "str_lower ''svm'' = ''svm''" "str_lower ''SVM'' = ''svm''" "str_lower ''DNN'' = ''dnn''"
  by code_simp+

text \<open>
  With a name other than \<^verbatim>\<open>dnn\<close> the cell reads the variable \<^verbatim>\<open>classifier\<close>, not
  \<^verbatim>\<open>classifier_name\<close>: the name given never reaches the message.
\<close>

lemma classifier_cell_unbound:
  "str_lower classifier_name \<noteq> ''dnn''
   \<Longrightarrow> classifier_cell train str_add dnn_model classifier_name None = Inl (NameError ''classifier'')"
  by (simp add: classifier_cell_def)

lemma classifier_cell_bound:
  "str_lower classifier_name \<noteq> ''dnn''
   \<Longrightarrow> classifier_cell train str_add dnn_model classifier_name (Some obj)
       = (case str_add ''Classifier unknown: '' obj of
            Inl e \<Rightarrow> Inl e
          | Inr message \<Rightarrow> Inl (Exception message))"
  by (simp add: classifier_cell_def)

text \<open>
  C1. For a \<^verbatim>\<open>classifier_name\<close> whose lowercase form is not \<^verbatim>\<open>dnn\<close> the cell is meant to
  raise an \<^verbatim>\<open>Exception\<close> with the message \<^verbatim>\<open>Classifier unknown: \<close> followed by the name.
  Run in a fresh kernel with the name \<^verbatim>\<open>svm\<close>, it raises a \<^verbatim>\<open>NameError\<close> for the
  unbound variable \<^verbatim>\<open>classifier\<close> instead.
\<close>

theorem classifier_cell_svm_fresh_kernel:
  "classifier_cell train str_add dnn_model ''svm'' None = Inl (NameError ''classifier'')
   \<and> classifier_cell train str_add dnn_model ''svm'' None
       \<noteq> Inl (Exception (''Classifier unknown: '' @ ''svm''))"
  by (simp add: classifier_cell_def str_lower_def lower_char_def)

section \<open>Properties of the deployment cell\<close>

text \<open>
  C6. In the deployment cell, \<^verbatim>\<open>deploy()\<close> is called for the deployment name of the
  cell, and when \<^verbatim>\<open>is_existing_service()\<close> holds, \<^verbatim>\<open>delete_if_service_exist\<close> has been
  called for that name earlier in the trace. If no service of a name exists once
  \<^verbatim>\<open>delete_if_service_exist\<close> has returned for it, then no service of the deployment name
  exists when \<^verbatim>\<open>deploy()\<close> is called.
\<close>

theorem deploy_only_after_delete:
  assumes "deployment_cell cli name c0 = (res, trace)"
    and "i < length trace" and "trace ! i = (Deploy obj, c)"
  shows "deployment_name obj = name
    \<and> (is_existing_service cli obj c0 = Inr True
         \<longrightarrow> (\<exists>j<i. trace ! j = (DeleteIfServiceExist name, c0)))
    \<and> ((\<forall>s s'. delete_if_service_exist cli name s = Inr s'
            \<longrightarrow> is_existing_service cli obj s' = Inr False)
         \<longrightarrow> is_existing_service cli obj c = Inr False)"
  using assms
  by (auto simp add: deployment_cell_def Let_def nth_Cons' nth_append
      split: sum.splits if_splits prod.splits)

theorem deploy_only_after_delete_witness:
  "is_existing_service example_cli
       \<lparr>deployment_name = ''icdeployment'', aml_env = ''cluster'', replicas = 1\<rparr>
       [''other'', ''icdeployment''] = Inr True
   \<and> snd (deployment_cell example_cli ''icdeployment'' [''other'', ''icdeployment'']) ! 3
       = (Deploy \<lparr>deployment_name = ''icdeployment'', aml_env = ''cluster'', replicas = 1\<rparr>, [''other''])
   \<and> (\<exists>j<3. snd (deployment_cell example_cli ''icdeployment'' [''other'', ''icdeployment'']) ! j
         = (DeleteIfServiceExist ''icdeployment'', [''other'', ''icdeployment'']))
   \<and> is_existing_service example_cli
       \<lparr>deployment_name = ''icdeployment'', aml_env = ''cluster'', replicas = 1\<rparr>
       [''other''] = Inr False"
proof -
  let ?obj = "\<lparr>deployment_name = ''icdeployment'', aml_env = ''cluster'', replicas = 1\<rparr>"
  let ?trace = "[(IsExistingService ?obj, [''other'', ''icdeployment'']),
     (DeleteIfServiceExist ''icdeployment'', [''other'', ''icdeployment'']),
     (Print ''Deploying to Azure cluster...'', [''other'']),
     (Deploy ?obj, [''other'']),
     (Print ''Deployment DONE'', [''icdeployment'', ''other''])]"
  have run: "deployment_cell example_cli ''icdeployment'' [''other'', ''icdeployment'']
      = (Inr [''icdeployment'', ''other''], ?trace)"
    by (simp add: deployment_cell_def example_cli_def Let_def)
  have i: "3 < length ?trace" by simp
  have at: "?trace ! 3 = (Deploy ?obj, [''other''])" by simp
  have existing: "is_existing_service example_cli ?obj [''other'', ''icdeployment''] = Inr True"
    by (simp add: example_cli_def)
  have contract: "\<forall>s s'. delete_if_service_exist example_cli ''icdeployment'' s = Inr s'
      \<longrightarrow> is_existing_service example_cli ?obj s' = Inr False"
    by (auto simp add: example_cli_def)
  show ?thesis
    using deploy_only_after_delete [OF run i at] existing contract by (simp add: run)
qed

end
